theory Spec2Isabelle
  imports Complex_Main "HOL-Library.Sublist"
begin

text \<open>
  An embedding of \<open>scrape_website\<close> from \<open>scraper_app.py\<close>: the request, the
  choice of a layout by the URL, the extraction of one record per content block, the
  two layers of exception handling, and the cache decorator around the function.
\<close>

section \<open>Strings and Python values\<close>

text \<open>
  A Python \<open>str\<close> is modelled as a \<open>string\<close> whose characters stand for code points
  below 256, which covers ASCII and the pound sign U+00A3 that the source strips from
  prices.
\<close>

text \<open>\<open>pat in s\<close> on strings: \<open>pat\<close> occurs in \<open>s\<close> as a contiguous substring.\<close>

fun contains :: "string \<Rightarrow> string \<Rightarrow> bool" where
  "contains pat [] = (pat = [])"
| "contains pat (c # cs) = (prefix pat (c # cs) \<or> contains pat cs)"

text \<open>The characters \<open>str.strip()\<close> removes (\<open>str.isspace\<close>, code points below 256).\<close>

definition str_isspace :: "char \<Rightarrow> bool" where
  "str_isspace c = (c \<in> set [CHR 0x09, CHR 0x0A, CHR 0x0B, CHR 0x0C, CHR 0x0D,
                              CHR 0x1C, CHR 0x1D, CHR 0x1E, CHR 0x1F, CHR 0x20,
                              CHR 0x85, CHR 0xA0])"

definition strip_with :: "(char \<Rightarrow> bool) \<Rightarrow> string \<Rightarrow> string" where
  "strip_with sp s = rev (dropWhile sp (rev (dropWhile sp s)))"

definition strip :: "string \<Rightarrow> string" where
  "strip s = strip_with str_isspace s"

text \<open>\<open>s.replace(c, '')\<close> for a one-character \<open>c\<close>: every occurrence is removed.\<close>

definition remove_char :: "char \<Rightarrow> string \<Rightarrow> string" where
  "remove_char c s = filter (\<lambda>x. x \<noteq> c) s"

definition pound :: char where
  "pound = CHR 0xA3"

definition dollar :: char where
  "dollar = CHR ''$''"

text \<open>
  A Python float. A finite value is kept as the exact decimal number its literal
  denotes; Python rounds that number to the nearest binary64 value, which keeps the
  sign, so comparisons with zero are the same.
\<close>

datatype pyfloat = Finite rat | Infinity bool | NaN

fun float_ge0 :: "pyfloat \<Rightarrow> bool" where
  "float_ge0 (Finite q) = (0 \<le> q)"
| "float_ge0 (Infinity neg) = (\<not> neg)"
| "float_ge0 NaN = False"

datatype pyval = PyStr string | PyFloat pyfloat | PyInt int | PyBool bool

text \<open>The exceptions the scraper can meet; all of them are subclasses of \<open>Exception\<close>.\<close>

datatype py_exception =
    ConnectionError string
  | Timeout string
  | HTTPError nat
  | AttributeError
  | ValueError
  | Unexpected string

fun is_RequestException :: "py_exception \<Rightarrow> bool" where
  "is_RequestException (ConnectionError _) = True"
| "is_RequestException (Timeout _) = True"
| "is_RequestException (HTTPError _) = True"
| "is_RequestException _ = False"

subsection \<open>The builtin \<open>float(str)\<close>\<close>

definition is_digit :: "char \<Rightarrow> bool" where
  "is_digit c = (c \<in> set ''0123456789'')"

definition digit_val :: "char \<Rightarrow> nat" where
  "digit_val c = of_char c - 48"

definition digits_val :: "string \<Rightarrow> nat" where
  "digits_val ds = fold (\<lambda>c n. 10 * n + digit_val c) ds 0"

text \<open>Whitespace that \<open>float\<close> strips from both ends of its argument.\<close>

definition float_isspace :: "char \<Rightarrow> bool" where
  "float_isspace c = (c \<in> set [CHR 0x09, CHR 0x0A, CHR 0x0B, CHR 0x0C, CHR 0x0D,
                                CHR 0x20, CHR 0x85, CHR 0xA0])"

text \<open>
  Underscores in a numeric literal: each one must stand between two digits.
  The first argument is the previous character.
\<close>

fun underscores_ok :: "char \<Rightarrow> string \<Rightarrow> bool" where
  "underscores_ok prev [] = (prev \<noteq> CHR ''_'')"
| "underscores_ok prev (c # cs) =
     ((if c = CHR ''_'' then is_digit prev
       else if prev = CHR ''_'' then is_digit c else True)
      \<and> underscores_ok c cs)"

definition ascii_lower :: "char \<Rightarrow> char" where
  "ascii_lower c = (if (65::nat) \<le> of_char c \<and> of_char c \<le> (90::nat)
                    then char_of (of_char c + (32::nat)) else c)"

definition parse_sign :: "string \<Rightarrow> bool \<times> string" where
  "parse_sign s = (case s of
      c # r \<Rightarrow> (if c = CHR ''-'' then (True, r)
                else if c = CHR ''+'' then (False, r) else (False, s))
    | [] \<Rightarrow> (False, s))"

definition scale10 :: "nat \<Rightarrow> int \<Rightarrow> rat" where
  "scale10 m e = (if 0 \<le> e then of_nat m * 10 ^ nat e else of_nat m / 10 ^ nat (- e))"

text \<open>The exponent part of a literal: empty, or \<open>e\<close>/\<open>E\<close>, an optional sign and digits.\<close>

definition parse_exponent :: "string \<Rightarrow> int option" where
  "parse_exponent s = (case s of
      [] \<Rightarrow> Some 0
    | c # r \<Rightarrow>
        (if c = CHR ''e'' \<or> c = CHR ''E'' then
           (case parse_sign r of (neg, ds) \<Rightarrow>
              if ds \<noteq> [] \<and> list_all is_digit ds
              then Some (if neg then - int (digits_val ds) else int (digits_val ds))
              else None)
         else None))"

definition parse_decimal :: "string \<Rightarrow> rat option" where
  "parse_decimal s =
     (let ip = takeWhile is_digit s;
          r1 = dropWhile is_digit s;
          has_point = (r1 \<noteq> [] \<and> hd r1 = CHR ''.'');
          fp = (if has_point then takeWhile is_digit (tl r1) else []);
          r2 = (if has_point then dropWhile is_digit (tl r1) else r1)
      in if ip = [] \<and> fp = [] then None
         else (case parse_exponent r2 of
                 None \<Rightarrow> None
               | Some e \<Rightarrow> Some (scale10 (digits_val (ip @ fp)) (e - int (length fp)))))"

definition parse_abs_float :: "bool \<Rightarrow> string \<Rightarrow> pyfloat option" where
  "parse_abs_float neg s =
     (if map ascii_lower s = ''inf'' \<or> map ascii_lower s = ''infinity'' then Some (Infinity neg)
      else if map ascii_lower s = ''nan'' then Some NaN
      else (case parse_decimal s of
              None \<Rightarrow> None
            | Some q \<Rightarrow> Some (Finite (if neg then - q else q))))"

text \<open>\<open>float(s)\<close>: \<open>None\<close> stands for the \<open>ValueError\<close> it raises.\<close>

definition py_float :: "string \<Rightarrow> pyfloat option" where
  "py_float s =
     (let t = strip_with float_isspace s in
      if \<not> underscores_ok (CHR 0x00) t then None
      else (case parse_sign (remove_char (CHR ''_'') t) of
              (neg, r) \<Rightarrow> parse_abs_float neg r))"

section \<open>The parsed document\<close>

text \<open>
  The tree that the parser collaborator (BeautifulSoup) hands back. A tag carries its
  \<open>class\<close> attribute as the list of class tokens (absent: \<open>None\<close>) and its other
  attributes as an association list.
\<close>

datatype node =
    NavigableString string
  | Comment string
  | Tag (tag_name: string) (tag_class: "string list option")
        (tag_attrs: "(string \<times> string) list") (contents: "node list")

text \<open>All nodes below a node, in document order.\<close>

fun descendants :: "node \<Rightarrow> node list" where
  "descendants (NavigableString s) = []"
| "descendants (Comment s) = []"
| "descendants (Tag n c a cs) = concat (map (\<lambda>x. x # descendants x) cs)"

text \<open>\<open>.text\<close>: the strings below a node, concatenated; comments are left out.\<close>

fun get_text :: "node \<Rightarrow> string" where
  "get_text (NavigableString s) = s"
| "get_text (Comment s) = []"
| "get_text (Tag n c a cs) = concat (map get_text cs)"

fun join_space :: "string list \<Rightarrow> string" where
  "join_space [] = []"
| "join_space [x] = x"
| "join_space (x # y # ys) = x @ '' '' @ join_space (y # ys)"

text \<open>
  A \<open>class_\<close> filter matches a tag when one of its class tokens equals the filter, or
  when its whole class attribute, joined by single spaces, does.
\<close>

definition matches_class :: "string option \<Rightarrow> node \<Rightarrow> bool" where
  "matches_class cls t = (case cls of
      None \<Rightarrow> True
    | Some c \<Rightarrow> (case tag_class t of
                   None \<Rightarrow> False
                 | Some cs \<Rightarrow> c \<in> set cs \<or> join_space cs = c))"

fun matches :: "string \<Rightarrow> string option \<Rightarrow> node \<Rightarrow> bool" where
  "matches nm cls (Tag n c a cs) = (n = nm \<and> matches_class cls (Tag n c a cs))"
| "matches nm cls _ = False"

definition find_all :: "node \<Rightarrow> string \<Rightarrow> string option \<Rightarrow> node list" where
  "find_all t nm cls = filter (matches nm cls) (descendants t)"

definition find :: "node \<Rightarrow> string \<Rightarrow> string option \<Rightarrow> node option" where
  "find t nm cls = (case find_all t nm cls of [] \<Rightarrow> None | x # _ \<Rightarrow> Some x)"

text \<open>\<open>tag.get(key, default)\<close> for an attribute other than \<open>class\<close>.\<close>

definition get_attr :: "node \<Rightarrow> string \<Rightarrow> string \<Rightarrow> string" where
  "get_attr t key dflt = (case map_of (tag_attrs t) key of None \<Rightarrow> dflt | Some v \<Rightarrow> v)"

text \<open>\<open>tag.get('class', default)\<close>.\<close>

definition get_class :: "node \<Rightarrow> string list \<Rightarrow> string list" where
  "get_class t dflt = (case tag_class t of None \<Rightarrow> dflt | Some cs \<Rightarrow> cs)"

section \<open>The scraper\<close>

type_synonym row = "(string \<times> pyval) list"

type_synonym dataframe = "row list"

text \<open>\<open>xs[:n]\<close>: a negative \<open>n\<close> counts from the end.\<close>

definition py_slice_to :: "'a list \<Rightarrow> int \<Rightarrow> 'a list" where
  "py_slice_to xs n = (if n < 0 then take (length xs - nat (- n)) xs else take (nat n) xs)"

definition rating_map :: "(string \<times> int) list" where
  "rating_map = [(''One'', 1), (''Two'', 2), (''Three'', 3), (''Four'', 4), (''Five'', 5)]"

text \<open>\<open>rating_map.get(key, default)\<close>.\<close>

definition rating_map_get :: "string \<Rightarrow> int \<Rightarrow> int" where
  "rating_map_get key dflt = (case map_of rating_map key of None \<Rightarrow> dflt | Some v \<Rightarrow> v)"

text \<open>The rating computed from the class list of the rating element.\<close>

definition rating_of_class :: "string list \<Rightarrow> int" where
  "rating_of_class rating_class =
     (if length rating_class > 1 then rating_map_get (rating_class ! 1) 0 else 0)"

text \<open>
  The body of the inner \<open>try\<close> of the books branch, for one block. \<open>Inl\<close> is the
  exception that the surrounding \<open>except Exception: continue\<close> swallows.
\<close>

definition extract_book :: "node \<Rightarrow> py_exception + row" where
  "extract_book book =
     (case find book ''h3'' None of
        None \<Rightarrow> Inl AttributeError
      | Some h3 \<Rightarrow>
     (case find h3 ''a'' None of
        None \<Rightarrow> Inl AttributeError
      | Some a \<Rightarrow>
     (let title = get_attr a ''title'' ''N/A'' in
     (case find book ''p'' (Some ''price_color'') of
        None \<Rightarrow> Inl AttributeError
      | Some price_el \<Rightarrow>
     (let price_text = strip (get_text price_el) in
     (case py_float (remove_char dollar (remove_char pound price_text)) of
        None \<Rightarrow> Inl ValueError
      | Some price \<Rightarrow>
     (case find book ''p'' (Some ''star-rating'') of
        None \<Rightarrow> Inl AttributeError
      | Some rating_element \<Rightarrow>
     (let rating_class = get_class rating_element [];
          rating = rating_of_class rating_class;
          availability = find book ''p'' (Some ''instock availability'');
          in_stock = (case availability of
                        None \<Rightarrow> False
                      | Some av \<Rightarrow> contains ''In stock'' (strip (get_text av)))
      in Inr [(''Title'', PyStr title),
              (''Price'', PyFloat price),
              (''Rating'', PyInt rating),
              (''In_Stock'', PyBool in_stock),
              (''Category'', PyStr ''Books'')]))))))))"

text \<open>The body of the inner \<open>try\<close> of the quotes branch.\<close>

definition extract_quote :: "node \<Rightarrow> py_exception + row" where
  "extract_quote quote =
     (case find quote ''span'' (Some ''text'') of
        None \<Rightarrow> Inl AttributeError
      | Some text_el \<Rightarrow>
     (case find quote ''small'' (Some ''author'') of
        None \<Rightarrow> Inl AttributeError
      | Some author_el \<Rightarrow>
     (let author = strip (get_text author_el)
      in Inr [(''Title'', PyStr (''Quote by '' @ author)),
              (''Price'', PyFloat (Finite 0)),
              (''Rating'', PyFloat (Finite 5)),
              (''In_Stock'', PyBool True),
              (''Category'', PyStr ''Quotes'')])))"

text \<open>
  The \<open>for\<close> loop over the blocks: a block whose extraction raises is skipped, the row
  of any other block is appended to \<open>products\<close>.
\<close>

fun scrape_loop :: "(node \<Rightarrow> py_exception + row) \<Rightarrow> node list \<Rightarrow> dataframe \<Rightarrow> dataframe" where
  "scrape_loop extract [] products = products"
| "scrape_loop extract (b # bs) products =
     (case extract b of
        Inl e \<Rightarrow> scrape_loop extract bs products
      | Inr r \<Rightarrow> scrape_loop extract bs (products @ [r]))"

text \<open>The two collaborators: the HTTP transport and the HTML parser.\<close>

record response =
  status_code :: nat
  content :: string

record world =
  requests_get :: "string \<Rightarrow> py_exception + response"
  html_parser :: "string \<Rightarrow> py_exception + node list"

definition raise_for_status :: "response \<Rightarrow> py_exception + unit" where
  "raise_for_status r =
     (if 400 \<le> status_code r \<and> status_code r < 600 then Inl (HTTPError (status_code r))
      else Inr ())"

text \<open>What the function does that the caller can observe besides the returned value.\<close>

datatype event =
    HttpGet string
  | StWarning
  | StErrorFetching py_exception
  | StErrorScraping py_exception

record outcome =
  events :: "event list"
  frame :: dataframe

text \<open>
  The first lines of the outer \<open>try\<close>: the request, \<open>raise_for_status\<close> and the
  parse. The document root is a tag of its own, so a search from it sees every tag
  of the document.
\<close>

definition fetch_soup :: "world \<Rightarrow> string \<Rightarrow> py_exception + node" where
  "fetch_soup w url =
     (case requests_get w url of
        Inl e \<Rightarrow> Inl e
      | Inr resp \<Rightarrow>
     (case raise_for_status resp of
        Inl e \<Rightarrow> Inl e
      | Inr _ \<Rightarrow>
     (case html_parser w (content resp) of
        Inl e \<Rightarrow> Inl e
      | Inr doc \<Rightarrow> Inr (Tag ''[document]'' None [] doc))))"

text \<open>
  The body of the outer \<open>try\<close>: the events so far, and the exception raised or the
  value returned.
\<close>

definition scrape_try :: "world \<Rightarrow> string \<Rightarrow> int \<Rightarrow> event list \<times> (py_exception + dataframe)" where
  "scrape_try w url max_items =
     (case fetch_soup w url of
        Inl e \<Rightarrow> ([HttpGet url], Inl e)
      | Inr soup \<Rightarrow>
          if contains ''books.toscrape.com'' url then
            ([HttpGet url],
             Inr (scrape_loop extract_book
                    (py_slice_to (find_all soup ''article'' (Some ''product_pod'')) max_items) []))
          else if contains ''quotes.toscrape.com'' url then
            ([HttpGet url],
             Inr (scrape_loop extract_quote
                    (py_slice_to (find_all soup ''div'' (Some ''quote'')) max_items) []))
          else ([HttpGet url, StWarning], Inr []))"

text \<open>The function with its two \<open>except\<close> clauses, without the cache decorator.\<close>

definition scrape_website :: "world \<Rightarrow> string \<Rightarrow> int \<Rightarrow> outcome" where
  "scrape_website w url max_items =
     (case scrape_try w url max_items of
        (ev, Inr df) \<Rightarrow> \<lparr>events = ev, frame = df\<rparr>
      | (ev, Inl e) \<Rightarrow>
          (if is_RequestException e
           then \<lparr>events = ev @ [StErrorFetching e], frame = []\<rparr>
           else \<lparr>events = ev @ [StErrorScraping e], frame = []\<rparr>))"

definition fetch_count :: "event list \<Rightarrow> nat" where
  "fetch_count ev = length (filter (\<lambda>e. case e of HttpGet _ \<Rightarrow> True | _ \<Rightarrow> False) ev)"

section \<open>Notions used to state the properties\<close>

text \<open>The branch of the \<open>if\<close>/\<open>elif\<close>/\<open>else\<close> chain that a URL selects.\<close>

datatype layout = Books | Quotes | Unsupported

definition route :: "string \<Rightarrow> layout" where
  "route url =
     (if contains ''books.toscrape.com'' url then Books
      else if contains ''quotes.toscrape.com'' url then Quotes
      else Unsupported)"

text \<open>The blocks a branch selects from the document, and the extractor it applies.\<close>

fun blocks_of :: "layout \<Rightarrow> node \<Rightarrow> node list" where
  "blocks_of Books soup = find_all soup ''article'' (Some ''product_pod'')"
| "blocks_of Quotes soup = find_all soup ''div'' (Some ''quote'')"
| "blocks_of Unsupported soup = []"

fun extractor :: "layout \<Rightarrow> node \<Rightarrow> py_exception + row" where
  "extractor Books = extract_book"
| "extractor Quotes = extract_quote"
| "extractor Unsupported = (\<lambda>b. Inl AttributeError)"

text \<open>The rows of the blocks whose extraction succeeds, in the order of the blocks.\<close>

fun rows_of :: "(node \<Rightarrow> py_exception + row) \<Rightarrow> node list \<Rightarrow> dataframe" where
  "rows_of extract [] = []"
| "rows_of extract (b # bs) =
     (case extract b of Inl e \<Rightarrow> rows_of extract bs | Inr r \<Rightarrow> r # rows_of extract bs)"

text \<open>The number of blocks whose extraction raises.\<close>

definition skipped_count :: "(node \<Rightarrow> py_exception + row) \<Rightarrow> node list \<Rightarrow> nat" where
  "skipped_count extract bs = length (filter (\<lambda>b. isl (extract b)) bs)"

text \<open>
  The invariant of a normalized record as the specification words it: the five fields
  in order, a string title, a float price that is not negative, an integer rating
  between 0 and 5, a boolean availability and a string category.
\<close>

fun normalized_record :: "row \<Rightarrow> bool" where
  "normalized_record [(k1, PyStr t), (k2, PyFloat p), (k3, PyInt r), (k4, PyBool a), (k5, PyStr c)] =
     (k1 = ''Title'' \<and> k2 = ''Price'' \<and> k3 = ''Rating'' \<and> k4 = ''In_Stock''
      \<and> k5 = ''Category'' \<and> float_ge0 p \<and> 0 \<le> r \<and> r \<le> 5)"
| "normalized_record _ = False"

text \<open>
  What the rows of the source do satisfy: the five fields in order; for a book any
  float as price and an integer rating between 0 and 5, for a quote the floats 0.0
  and 5.0.
\<close>

fun complete_row :: "row \<Rightarrow> bool" where
  "complete_row [(k1, PyStr t), (k2, PyFloat p), (k3, rating), (k4, PyBool a), (k5, PyStr c)] =
     (k1 = ''Title'' \<and> k2 = ''Price'' \<and> k3 = ''Rating'' \<and> k4 = ''In_Stock''
      \<and> k5 = ''Category''
      \<and> (case rating of
            PyInt r \<Rightarrow> 0 \<le> r \<and> r \<le> 5 \<and> c = ''Books''
          | PyFloat r \<Rightarrow> r = Finite 5 \<and> p = Finite 0 \<and> c = ''Quotes''
          | _ \<Rightarrow> False))"
| "complete_row _ = False"

text \<open>The event an \<open>except\<close> clause of the outer \<open>try\<close> emits for an exception.\<close>

definition error_event :: "py_exception \<Rightarrow> event" where
  "error_event e = (if is_RequestException e then StErrorFetching e else StErrorScraping e)"

text \<open>
  The parts of a book block that the extractor reads besides the rating: the anchor
  below the heading, the price that \<open>float\<close> yields, and the availability.
\<close>

definition title_anchor :: "node \<Rightarrow> node option" where
  "title_anchor book =
     (case find book ''h3'' None of None \<Rightarrow> None | Some h3 \<Rightarrow> find h3 ''a'' None)"

definition price_value :: "node \<Rightarrow> pyfloat option" where
  "price_value book =
     (case find book ''p'' (Some ''price_color'') of
        None \<Rightarrow> None
      | Some price_el \<Rightarrow>
          py_float (remove_char dollar (remove_char pound (strip (get_text price_el)))))"

definition in_stock_of :: "node \<Rightarrow> bool" where
  "in_stock_of book =
     (case find book ''p'' (Some ''instock availability'') of
        None \<Rightarrow> False
      | Some av \<Rightarrow> contains ''In stock'' (strip (get_text av)))"

section \<open>The cache decorator\<close>

text \<open>
  Modelled from the spec: the implementation of the decorator \<open>st.cache_data(ttl=3600)\<close>
  is not part of the repository. An entry holds the cached value and its creation time;
  a request finds its entry fresh while \<open>now - created_at < TTL\<close>. On a miss or an
  expired entry the compute function is invoked, and its result is stored only when it
  returns (an exception is passed on and nothing is stored).
\<close>

record 'v cache_entry =
  cached_value :: 'v
  created_at :: int

type_synonym ('k, 'v) cache = "'k \<Rightarrow> 'v cache_entry option"

definition ttl :: int where
  "ttl = 3600"

definition fresh :: "('k, 'v) cache \<Rightarrow> int \<Rightarrow> 'k \<Rightarrow> bool" where
  "fresh c now k = (case c k of None \<Rightarrow> False | Some e \<Rightarrow> now - created_at e < ttl)"

text \<open>
  Modelled from the spec: the read path and the write path of the cache, for the
  decorator whose code is missing. The fourth argument is the outcome of the compute
  function; the third component of the result tells whether it was invoked.
\<close>

definition get_or_compute ::
  "('k, 'v) cache \<Rightarrow> int \<Rightarrow> 'k \<Rightarrow> (py_exception + 'v) \<Rightarrow> (py_exception + 'v) \<times> ('k, 'v) cache \<times> bool" where
  "get_or_compute c now k computed =
     (case (if fresh c now k then c k else None) of
        Some e \<Rightarrow> (Inr (cached_value e), c, False)
      | None \<Rightarrow>
          (case computed of
             Inl ex \<Rightarrow> (Inl ex, c, True)
           | Inr v \<Rightarrow> (Inr v, c(k \<mapsto> \<lparr>cached_value = v, created_at = now\<rparr>), True)))"

text \<open>
  The decorated function. The state holds the cache, the events of the pipeline runs so
  far and their number. The function under the decorator always returns, so what the
  decorator sees is \<open>Inr\<close> of the frame.
\<close>

record app_state =
  store :: "(string \<times> int, dataframe) cache"
  trace :: "event list"
  pipeline_calls :: nat

definition cached_scrape_website ::
  "world \<Rightarrow> int \<Rightarrow> app_state \<Rightarrow> string \<Rightarrow> int \<Rightarrow> (py_exception + dataframe) \<times> app_state" where
  "cached_scrape_website w now s url max_items =
     (let out = scrape_website w url max_items in
      case get_or_compute (store s) now (url, max_items) (Inr (frame out)) of
        (res, c, invoked) \<Rightarrow>
          (res, if invoked
                then \<lparr>store = c, trace = trace s @ events out,
                      pipeline_calls = pipeline_calls s + 1\<rparr>
                else s))"

definition empty_state :: app_state where
  "empty_state = \<lparr>store = (\<lambda>k. None), trace = [], pipeline_calls = 0\<rparr>"

section \<open>Example documents\<close>

definition book_block :: "string \<Rightarrow> string \<Rightarrow> string list \<Rightarrow> node" where
  "book_block title price_text rating_class =
     Tag ''article'' (Some [''product_pod'']) []
       [Tag ''p'' (Some rating_class) [] [],
        Tag ''h3'' None [] [Tag ''a'' None [(''href'', ''x.html''), (''title'', title)] []],
        Tag ''p'' (Some [''price_color'']) [] [NavigableString price_text],
        Tag ''p'' (Some [''instock'', ''availability'']) [] [NavigableString '' In stock '']]"

definition book1 :: node where
  "book1 = book_block ''One'' (pound # ''1.5'') [''star-rating'', ''Three'']"

definition book2 :: node where
  "book2 = book_block ''Two'' (pound # ''2.5'') [''star-rating'', ''Five'']"

definition book_na :: node where
  "book_na = book_block ''Bad'' ''N/A'' [''star-rating'', ''Two'']"

definition book_neg :: node where
  "book_neg = book_block ''Neg'' (pound # ''-1.5'') [''star-rating'', ''One'']"

definition quote1 :: node where
  "quote1 = Tag ''div'' (Some [''quote'']) []
              [Tag ''span'' (Some [''text'']) [] [NavigableString ''Hi''],
               Tag ''small'' (Some [''author'']) [] [NavigableString ''Ann'']]"

definition row1 :: row where
  "row1 = [(''Title'', PyStr ''One''), (''Price'', PyFloat (Finite (3 / 2))),
           (''Rating'', PyInt 3), (''In_Stock'', PyBool True), (''Category'', PyStr ''Books'')]"

definition row2 :: row where
  "row2 = [(''Title'', PyStr ''Two''), (''Price'', PyFloat (Finite (5 / 2))),
           (''Rating'', PyInt 5), (''In_Stock'', PyBool True), (''Category'', PyStr ''Books'')]"

definition row_neg :: row where
  "row_neg = [(''Title'', PyStr ''Neg''), (''Price'', PyFloat (Finite (- (3 / 2)))),
              (''Rating'', PyInt 1), (''In_Stock'', PyBool True), (''Category'', PyStr ''Books'')]"

definition row_quote1 :: row where
  "row_quote1 = [(''Title'', PyStr ''Quote by Ann''), (''Price'', PyFloat (Finite 0)),
                 (''Rating'', PyFloat (Finite 5)), (''In_Stock'', PyBool True),
                 (''Category'', PyStr ''Quotes'')]"

definition book_unrated :: node where
  "book_unrated = book_block ''Plain'' ''$4'' [''star-rating'']"

definition row_unrated :: row where
  "row_unrated = [(''Title'', PyStr ''Plain''), (''Price'', PyFloat (Finite 4)),
                  (''Rating'', PyInt 0), (''In_Stock'', PyBool True),
                  (''Category'', PyStr ''Books'')]"

definition book_norating :: node where
  "book_norating =
     Tag ''article'' (Some [''product_pod'']) []
       [Tag ''h3'' None [] [Tag ''a'' None [(''href'', ''x.html''), (''title'', ''Bare'')] []],
        Tag ''p'' (Some [''price_color'']) [] [NavigableString (pound # ''1.5'')],
        Tag ''p'' (Some [''instock'', ''availability'']) [] [NavigableString '' In stock '']]"

definition book_nostock :: node where
  "book_nostock =
     Tag ''article'' (Some [''product_pod'']) []
       [Tag ''p'' (Some [''star-rating'', ''Three'']) [] [],
        Tag ''h3'' None [] [Tag ''a'' None [(''href'', ''x.html''), (''title'', ''Bare'')] []],
        Tag ''p'' (Some [''price_color'']) [] [NavigableString (pound # ''1.5'')]]"

definition row_nostock :: row where
  "row_nostock = [(''Title'', PyStr ''Bare''), (''Price'', PyFloat (Finite (3 / 2))),
                  (''Rating'', PyInt 3), (''In_Stock'', PyBool False),
                  (''Category'', PyStr ''Books'')]"

definition doc_one_bad :: "node list" where
  "doc_one_bad = [book1, book_na, book2]"

definition doc_all_good :: "node list" where
  "doc_all_good = [book1, book2]"

definition doc_five :: "node list" where
  "doc_five = [book1, book2, book_neg, book2, book1]"

text \<open>A world whose transport answers 200 to every URL and whose document is \<open>doc\<close>.\<close>

definition serving :: "node list \<Rightarrow> world" where
  "serving doc = \<lparr>requests_get = (\<lambda>u. Inr \<lparr>status_code = 200, content = ''html''\<rparr>),
                  html_parser = (\<lambda>c. Inr doc)\<rparr>"

text \<open>A world whose transport fails.\<close>

definition offline :: world where
  "offline = \<lparr>requests_get = (\<lambda>u. Inl (ConnectionError ''unreachable'')),
              html_parser = (\<lambda>c. Inr [])\<rparr>"

definition books_url :: string where
  "books_url = ''https://books.toscrape.com/''"

definition quotes_url :: string where
  "quotes_url = ''https://quotes.toscrape.com/''"

definition other_url :: string where
  "other_url = ''https://example.com/''"

section \<open>Properties of the loop and of the pipeline\<close>

lemma scrape_loop_rows: "scrape_loop f bs acc = acc @ rows_of f bs"
  by (induction bs arbitrary: acc) (auto split: sum.splits)

lemma rows_of_append: "rows_of f (xs @ ys) = rows_of f xs @ rows_of f ys"
  by (induction xs) (auto split: sum.splits)

lemma length_rows_of: "length (rows_of f bs) + skipped_count f bs = length bs"
  by (induction bs) (auto simp: skipped_count_def split: sum.splits)

lemma length_rows_of_le: "length (rows_of f bs) \<le> length bs"
  using length_rows_of [of f bs] by linarith

lemma rows_of_mem: "r \<in> set (rows_of f bs) \<Longrightarrow> \<exists>b \<in> set bs. f b = Inr r"
  by (induction bs) (auto split: sum.splits)

lemma rows_of_valid: "\<forall>b \<in> set bs. \<not> isl (f b) \<Longrightarrow> rows_of f bs = map (projr \<circ> f) bs"
  by (induction bs) (auto split: sum.splits)

lemma rows_of_raising: "isl (f b) \<Longrightarrow> rows_of f [b] = []"
  by (auto split: sum.splits)

lemma length_py_slice_to: "0 \<le> n \<Longrightarrow> length (py_slice_to xs n) \<le> nat n"
  by (simp add: py_slice_to_def)

lemma py_slice_to_take: "0 \<le> n \<Longrightarrow> py_slice_to xs n = take (nat n) xs"
  by (simp add: py_slice_to_def)

lemma scrape_try_route:
  "scrape_try w url n =
     (case fetch_soup w url of
        Inl e \<Rightarrow> ([HttpGet url], Inl e)
      | Inr soup \<Rightarrow>
          if route url = Unsupported then ([HttpGet url, StWarning], Inr [])
          else ([HttpGet url],
                Inr (rows_of (extractor (route url)) (py_slice_to (blocks_of (route url) soup) n))))"
  by (simp add: scrape_try_def route_def scrape_loop_rows split: sum.splits)

lemma scrape_website_raise:
  "fetch_soup w url = Inl e \<Longrightarrow>
   scrape_website w url n = \<lparr>events = [HttpGet url, error_event e], frame = []\<rparr>"
  by (simp add: scrape_website_def scrape_try_route error_event_def)

lemma scrape_website_unsupported:
  "fetch_soup w url = Inr soup \<Longrightarrow> route url = Unsupported \<Longrightarrow>
   scrape_website w url n = \<lparr>events = [HttpGet url, StWarning], frame = []\<rparr>"
  by (simp add: scrape_website_def scrape_try_route)

lemma scrape_website_supported:
  "fetch_soup w url = Inr soup \<Longrightarrow> route url \<noteq> Unsupported \<Longrightarrow>
   scrape_website w url n =
     \<lparr>events = [HttpGet url],
      frame = rows_of (extractor (route url)) (py_slice_to (blocks_of (route url) soup) n)\<rparr>"
  by (simp add: scrape_website_def scrape_try_route)

lemma rating_map_get_range: "0 \<le> rating_map_get k 0 \<and> rating_map_get k 0 \<le> 5"
  by (simp add: rating_map_get_def rating_map_def)

lemma rating_of_class_range: "0 \<le> rating_of_class cs \<and> rating_of_class cs \<le> 5"
  using rating_map_get_range by (simp add: rating_of_class_def)

lemma extract_book_complete: "extract_book b = Inr r \<Longrightarrow> complete_row r"
  using rating_of_class_range
  by (auto simp: extract_book_def Let_def split: option.splits)

lemma extract_quote_complete: "extract_quote b = Inr r \<Longrightarrow> complete_row r"
  by (auto simp: extract_quote_def Let_def split: option.splits)

lemma extractor_complete: "extractor l b = Inr r \<Longrightarrow> complete_row r"
  by (cases l) (auto dest: extract_book_complete extract_quote_complete)

lemmas float_defs = py_float_def float_isspace_def is_digit_def parse_sign_def
  parse_abs_float_def parse_decimal_def parse_exponent_def ascii_lower_def digits_val_def
  digit_val_def scale10_def remove_char_def

lemmas tree_defs = find_def find_all_def matches_class_def get_attr_def get_class_def
  strip_def strip_with_def str_isspace_def

lemma book1_row: "extract_book book1 = Inr row1"
  by (simp add: extract_book_def book1_def book_block_def row1_def tree_defs float_defs
      pound_def dollar_def rating_of_class_def rating_map_get_def rating_map_def)

lemma book2_row: "extract_book book2 = Inr row2"
  by (simp add: extract_book_def book2_def book_block_def row2_def tree_defs float_defs
      pound_def dollar_def rating_of_class_def rating_map_get_def rating_map_def)

lemma book_neg_row: "extract_book book_neg = Inr row_neg"
  by (simp add: extract_book_def book_neg_def book_block_def row_neg_def tree_defs float_defs
      pound_def dollar_def rating_of_class_def rating_map_get_def rating_map_def)

lemma book_na_raises: "extract_book book_na = Inl ValueError"
  by (simp add: extract_book_def book_na_def book_block_def tree_defs float_defs
      pound_def dollar_def rating_of_class_def rating_map_get_def rating_map_def)

lemma quote1_row: "extract_quote quote1 = Inr row_quote1"
  by (simp add: extract_quote_def quote1_def row_quote1_def tree_defs)

lemma route_books_url: "route books_url = Books"
  by (simp add: route_def books_url_def)

lemma route_quotes_url: "route quotes_url = Quotes"
  by (simp add: route_def quotes_url_def)

lemma route_other_url: "route other_url = Unsupported"
  by (simp add: route_def other_url_def)

lemma fetch_soup_serving: "fetch_soup (serving doc) url = Inr (Tag ''[document]'' None [] doc)"
  by (simp add: fetch_soup_def serving_def raise_for_status_def)

lemma fetch_soup_offline: "fetch_soup offline url = Inl (ConnectionError ''unreachable'')"
  by (simp add: fetch_soup_def offline_def)

lemma find_all_root_Nil: "find_all (Tag n c a []) nm cls = []"
  by (simp add: find_all_def)

lemma find_all_root_Cons:
  "find_all (Tag n c a (b # bs)) nm cls =
     (if matches nm cls b then [b] else []) @ find_all b nm cls @ find_all (Tag n c a bs) nm cls"
  by (simp add: find_all_def)

lemma book_block_is_block:
  "matches ''article'' (Some ''product_pod'') (book_block t p r)"
  by (simp add: book_block_def matches_class_def)

lemma book_block_no_inner_block:
  "find_all (book_block t p r) ''article'' (Some ''product_pod'') = []"
  by (simp add: book_block_def find_all_def)

lemmas blocks_simps = find_all_root_Nil find_all_root_Cons book_block_is_block
  book_block_no_inner_block book1_def book2_def book_na_def book_neg_def

lemma blocks_doc_one_bad:
  "blocks_of Books (Tag ''[document]'' None [] doc_one_bad) = doc_one_bad"
  by (simp add: doc_one_bad_def blocks_simps)

lemma blocks_doc_all_good:
  "blocks_of Books (Tag ''[document]'' None [] doc_all_good) = doc_all_good"
  by (simp add: doc_all_good_def blocks_simps)

lemma blocks_doc_five:
  "blocks_of Books (Tag ''[document]'' None [] doc_five) = doc_five"
  by (simp add: doc_five_def blocks_simps)

lemma blocks_doc_na:
  "blocks_of Books (Tag ''[document]'' None [] [book_na]) = [book_na]"
  by (simp add: blocks_simps)

lemma blocks_doc_book1:
  "blocks_of Books (Tag ''[document]'' None [] [book1]) = [book1]"
  by (simp add: blocks_simps)

lemmas example_rows = book1_row book2_row book_neg_row book_na_raises

lemma frame_rows_of_take:
  assumes "0 \<le> N" "fetch_soup w url = Inr soup"
  shows "frame (scrape_website w url N) =
           rows_of (extractor (route url)) (take (nat N) (blocks_of (route url) soup))"
proof (cases "route url = Unsupported")
  case True
  then show ?thesis using assms by (simp add: scrape_website_unsupported)
next
  case False
  then show ?thesis
    using assms by (simp add: scrape_website_supported py_slice_to_take)
qed

lemma frame_length_bound:
  assumes "0 \<le> N"
  shows "length (frame (scrape_website w url N)) \<le> nat N"
proof (cases "fetch_soup w url")
  case (Inl e)
  then show ?thesis by (simp add: scrape_website_raise)
next
  case (Inr soup)
  have "length (rows_of (extractor (route url)) (take (nat N) (blocks_of (route url) soup)))
        \<le> length (take (nat N) (blocks_of (route url) soup))"
    by (rule length_rows_of_le)
  then show ?thesis using frame_rows_of_take [OF assms Inr] by simp
qed

lemma quote_rating_is_float:
  "extract_quote quote1 = Inr row_quote1 \<and> \<not> normalized_record row_quote1"
  by (simp add: quote1_row row_quote1_def)

lemma frame_rows_complete:
  assumes "r \<in> set (frame (scrape_website w url n))"
  shows "\<exists>soup. fetch_soup w url = Inr soup \<and> route url \<noteq> Unsupported
           \<and> r \<in> set (rows_of (extractor (route url)) (py_slice_to (blocks_of (route url) soup) n))"
proof (cases "fetch_soup w url")
  case (Inl e)
  then show ?thesis using assms by (simp add: scrape_website_raise)
next
  case (Inr soup)
  show ?thesis
  proof (cases "route url = Unsupported")
    case True
    then show ?thesis using assms Inr by (simp add: scrape_website_unsupported)
  next
    case False
    then show ?thesis using assms Inr by (simp add: scrape_website_supported)
  qed
qed

lemma rating_of_class_enum:
  "rating_of_class [] = 0"
  "rating_of_class [c] = 0"
  "rating_of_class (c # label # rest) =
     (if label = ''One'' then 1 else if label = ''Two'' then 2
      else if label = ''Three'' then 3 else if label = ''Four'' then 4
      else if label = ''Five'' then 5 else 0)"
  by (simp_all add: rating_of_class_def rating_map_get_def rating_map_def)

lemma extract_book_cases:
  "extract_book book =
     (case title_anchor book of
        None \<Rightarrow> Inl AttributeError
      | Some a \<Rightarrow>
     (case find book ''p'' (Some ''price_color'') of
        None \<Rightarrow> Inl AttributeError
      | Some price_el \<Rightarrow>
     (case price_value book of
        None \<Rightarrow> Inl ValueError
      | Some price \<Rightarrow>
     (case find book ''p'' (Some ''star-rating'') of
        None \<Rightarrow> Inl AttributeError
      | Some rating_element \<Rightarrow>
          Inr [(''Title'', PyStr (get_attr a ''title'' ''N/A'')),
               (''Price'', PyFloat price),
               (''Rating'', PyInt (rating_of_class (get_class rating_element []))),
               (''In_Stock'', PyBool (in_stock_of book)),
               (''Category'', PyStr ''Books'')]))))"
  by (simp add: extract_book_def title_anchor_def price_value_def in_stock_of_def Let_def
      split: option.splits)

lemma cached_miss:
  assumes "\<not> fresh (store s) t (url, n)"
  shows "cached_scrape_website w t s url n =
           (Inr (frame (scrape_website w url n)),
            \<lparr>store = (store s)((url, n) \<mapsto>
                        \<lparr>cached_value = frame (scrape_website w url n), created_at = t\<rparr>),
             trace = trace s @ events (scrape_website w url n),
             pipeline_calls = pipeline_calls s + 1\<rparr>)"
  using assms by (simp add: cached_scrape_website_def get_or_compute_def Let_def)

lemma cached_hit:
  assumes "store s (url, n) = Some e" "t - created_at e < ttl"
  shows "cached_scrape_website w t s url n = (Inr (cached_value e), s)"
  using assms by (simp add: cached_scrape_website_def get_or_compute_def fresh_def Let_def)

lemma cached_expired:
  assumes "store s (url, n) = Some e" "ttl \<le> t - created_at e"
  shows "\<not> fresh (store s) t (url, n)"
  using assms by (simp add: fresh_def)

lemma fresh_empty_state: "\<not> fresh (store empty_state) t k"
  by (simp add: fresh_def empty_state_def)

lemma missing_rating_element_raises:
  "find book ''p'' (Some ''star-rating'') = None \<Longrightarrow> isl (extract_book book)"
  by (simp add: extract_book_cases split: option.splits)

lemma book_norating_is_block:
  "blocks_of Books (Tag ''[document]'' None [] [book_norating]) = [book_norating]"
  by (simp add: book_norating_def find_all_def matches_class_def)

section \<open>The claims\<close>

subsection \<open>C1: unsupported sources\<close>

text \<open>
  C1, as stated, fails: the request is the first statement of the \<open>try\<close> block and
  the URL is inspected only after the document has been fetched and parsed. For a URL
  that selects no branch the transport is still invoked once.
\<close>

theorem unsupported_url_is_fetched:
  "route other_url = Unsupported
   \<and> fetch_count (events (scrape_website (serving []) other_url 50)) = 1"
  by (simp add: route_other_url scrape_website_unsupported [OF fetch_soup_serving route_other_url]
      fetch_count_def)

text \<open>
  C1, amended: for every URL that matches no known pattern the transport is invoked
  exactly once and an empty frame is returned; when the fetch and the parse succeed the
  unsupported-source warning is emitted, and when they raise the error of the fetch is
  reported instead.
\<close>

theorem unsupported_fetches_once:
  assumes "route url = Unsupported"
  shows "fetch_count (events (scrape_website w url n)) = 1
         \<and> frame (scrape_website w url n) = []
         \<and> events (scrape_website w url n) =
             [HttpGet url, (case fetch_soup w url of Inl e \<Rightarrow> error_event e | Inr soup \<Rightarrow> StWarning)]"
proof (cases "fetch_soup w url")
  case (Inl e)
  then show ?thesis
    by (simp add: scrape_website_raise fetch_count_def error_event_def)
next
  case (Inr soup)
  then show ?thesis
    using assms by (simp add: scrape_website_unsupported fetch_count_def)
qed

text \<open>The amended C1 at an unsupported URL while the transport is down.\<close>

theorem unsupported_fetches_once_witness:
  "route other_url = Unsupported
   \<and> fetch_count (events (scrape_website offline other_url 50)) = 1
   \<and> frame (scrape_website offline other_url 50) = []
   \<and> events (scrape_website offline other_url 50) =
       [HttpGet other_url, StErrorFetching (ConnectionError ''unreachable'')]"
  using unsupported_fetches_once [OF route_other_url, of offline 50]
  by (simp add: route_other_url fetch_soup_offline error_event_def fetch_count_def)

subsection \<open>C2: one malformed block\<close>

text \<open>
  C2, as stated, fails in its last part: no skip count is returned. A batch with one
  malformed block and the same batch without it have skip counts 1 and 0, and
  \<open>scrape_website\<close> returns the same frame and emits the same events for both.
\<close>

theorem skip_count_not_returned:
  "blocks_of Books (Tag ''[document]'' None [] doc_one_bad) = doc_one_bad
   \<and> blocks_of Books (Tag ''[document]'' None [] doc_all_good) = doc_all_good
   \<and> skipped_count extract_book doc_one_bad = 1
   \<and> skipped_count extract_book doc_all_good = 0
   \<and> scrape_website (serving doc_one_bad) books_url 50
       = scrape_website (serving doc_all_good) books_url 50"
proof -
  have s1: "skipped_count extract_book doc_one_bad = 1"
    by (simp add: skipped_count_def doc_one_bad_def example_rows)
  have s0: "skipped_count extract_book doc_all_good = 0"
    by (simp add: skipped_count_def doc_all_good_def example_rows)
  have a: "scrape_website (serving doc_one_bad) books_url 50
             = \<lparr>events = [HttpGet books_url], frame = [row1, row2]\<rparr>"
    using blocks_doc_one_bad
    by (simp add: scrape_website_supported [OF fetch_soup_serving] route_books_url
        py_slice_to_def doc_one_bad_def example_rows)
  have b: "scrape_website (serving doc_all_good) books_url 50
             = \<lparr>events = [HttpGet books_url], frame = [row1, row2]\<rparr>"
    using blocks_doc_all_good
    by (simp add: scrape_website_supported [OF fetch_soup_serving] route_books_url
        py_slice_to_def doc_all_good_def example_rows)
  show ?thesis using blocks_doc_one_bad blocks_doc_all_good s1 s0 a b by simp
qed

text \<open>
  C2, amended: when exactly one of the selected blocks is malformed and the
  \<open>K\<close> others are valid, the returned frame has the \<open>K\<close> rows of the valid blocks
  in document order and no error is reported; the outcome carries no skip count.
\<close>

theorem one_malformed_block_is_dropped:
  assumes "fetch_soup w url = Inr soup"
    and "route url \<noteq> Unsupported"
    and "py_slice_to (blocks_of (route url) soup) n = pre @ [bad] @ post"
    and "isl (extractor (route url) bad)"
    and "\<forall>b \<in> set (pre @ post). \<not> isl (extractor (route url) b)"
  shows "scrape_website w url n =
           \<lparr>events = [HttpGet url], frame = map (projr \<circ> extractor (route url)) (pre @ post)\<rparr>
         \<and> length (frame (scrape_website w url n)) = length pre + length post"
proof -
  have "rows_of (extractor (route url)) (pre @ [bad] @ post)
          = rows_of (extractor (route url)) pre @ rows_of (extractor (route url)) post"
    using assms(4) by (cases "extractor (route url) bad") (simp_all add: rows_of_append)
  also have "\<dots> = rows_of (extractor (route url)) (pre @ post)"
    by (simp add: rows_of_append)
  also have "\<dots> = map (projr \<circ> extractor (route url)) (pre @ post)"
    by (rule rows_of_valid [OF assms(5)])
  finally have "rows_of (extractor (route url)) (pre @ [bad] @ post)
          = map (projr \<circ> extractor (route url)) (pre @ post)" .
  then have "scrape_website w url n =
           \<lparr>events = [HttpGet url], frame = map (projr \<circ> extractor (route url)) (pre @ post)\<rparr>"
    using assms(1-3) by (simp add: scrape_website_supported)
  then show ?thesis by simp
qed

text \<open>The amended C2 on a document with a malformed block between two valid ones.\<close>

theorem one_malformed_block_is_dropped_witness:
  "fetch_soup (serving doc_one_bad) books_url = Inr (Tag ''[document]'' None [] doc_one_bad)
   \<and> route books_url \<noteq> Unsupported
   \<and> py_slice_to (blocks_of (route books_url) (Tag ''[document]'' None [] doc_one_bad)) 50
       = [book1] @ [book_na] @ [book2]
   \<and> isl (extractor (route books_url) book_na)
   \<and> \<not> isl (extractor (route books_url) book1)
   \<and> \<not> isl (extractor (route books_url) book2)
   \<and> scrape_website (serving doc_one_bad) books_url 50 =
       \<lparr>events = [HttpGet books_url], frame = [row1, row2]\<rparr>
   \<and> length (frame (scrape_website (serving doc_one_bad) books_url 50)) = 2"
proof -
  have f: "fetch_soup (serving doc_one_bad) books_url = Inr (Tag ''[document]'' None [] doc_one_bad)"
    by (rule fetch_soup_serving)
  have r: "route books_url \<noteq> Unsupported"
    by (simp add: route_books_url)
  have s: "py_slice_to (blocks_of (route books_url) (Tag ''[document]'' None [] doc_one_bad)) 50
             = [book1] @ [book_na] @ [book2]"
    using blocks_doc_one_bad by (simp add: route_books_url py_slice_to_def doc_one_bad_def)
  have m: "isl (extractor (route books_url) book_na)"
    by (simp add: route_books_url book_na_raises)
  have v: "\<forall>b \<in> set ([book1] @ [book2]). \<not> isl (extractor (route books_url) b)"
    by (simp add: route_books_url book1_row book2_row)
  from one_malformed_block_is_dropped [OF f r s m v]
  have "scrape_website (serving doc_one_bad) books_url 50 =
          \<lparr>events = [HttpGet books_url], frame = [row1, row2]\<rparr>
        \<and> length (frame (scrape_website (serving doc_one_bad) books_url 50)) = 2"
    by (simp add: route_books_url book1_row book2_row)
  then show ?thesis using f r s m v by simp
qed

subsection \<open>C3: errors and the cache\<close>

text \<open>
  C3, as stated, fails: the function never raises, so the decorator stores what it
  returns after an error too. A first request while the transport is down stores the
  empty frame; a second request one second later, when the site would answer with a
  book, gets the cached empty frame and the pipeline is not run again.
\<close>

theorem failed_fetch_is_cached:
  "fetch_soup offline books_url = Inl (ConnectionError ''unreachable'')
   \<and> store (snd (cached_scrape_website offline 0 empty_state books_url 50)) (books_url, 50)
       = Some \<lparr>cached_value = [], created_at = 0\<rparr>
   \<and> cached_scrape_website (serving [book1]) 1
        (snd (cached_scrape_website offline 0 empty_state books_url 50)) books_url 50
       = (Inr [], snd (cached_scrape_website offline 0 empty_state books_url 50))
   \<and> pipeline_calls (snd (cached_scrape_website offline 0 empty_state books_url 50)) = 1
   \<and> frame (scrape_website (serving [book1]) books_url 50) = [row1]"
proof -
  have fr: "frame (scrape_website (serving [book1]) books_url 50) = [row1]"
    using blocks_doc_book1
    by (simp add: scrape_website_supported [OF fetch_soup_serving] route_books_url
        py_slice_to_def book1_row)
  have off: "frame (scrape_website offline books_url 50) = []"
    by (simp add: scrape_website_raise [OF fetch_soup_offline])
  let ?s1 = "snd (cached_scrape_website offline 0 empty_state books_url 50)"
  have cm: "cached_scrape_website offline 0 empty_state books_url 50 =
           (Inr (frame (scrape_website offline books_url 50)),
            \<lparr>store = (store empty_state)((books_url, 50) \<mapsto>
                        \<lparr>cached_value = frame (scrape_website offline books_url 50),
                         created_at = 0\<rparr>),
             trace = trace empty_state @ events (scrape_website offline books_url 50),
             pipeline_calls = pipeline_calls empty_state + 1\<rparr>)"
    by (rule cached_miss [OF fresh_empty_state])
  have st: "store ?s1 (books_url, 50) = Some \<lparr>cached_value = [], created_at = 0\<rparr>"
    and pc: "pipeline_calls ?s1 = 1"
    using off unfolding cm by (simp_all add: empty_state_def)
  have "(1::int) - created_at \<lparr>cached_value = ([]::dataframe), created_at = 0\<rparr> < ttl"
    by (simp add: ttl_def)
  then have hit: "cached_scrape_website (serving [book1]) 1 ?s1 books_url 50 = (Inr [], ?s1)"
    using cached_hit [OF st, of 1 "serving [book1]"] by simp
  show ?thesis using fetch_soup_offline st hit pc fr by simp
qed

text \<open>
  C3, amended: when a pipeline run ends in an error (a failure of the fetch or an
  unsupported source), the empty frame it returns is stored for the key; every request
  with the same key within the TTL returns the cached empty frame without running the
  pipeline, and the pipeline is run again only once the entry has expired.
\<close>

theorem error_result_is_cached:
  assumes "\<not> fresh (store s) t1 (url, n)"
    and "(\<exists>e. fetch_soup w1 url = Inl e) \<or> route url = Unsupported"
    and "cached_scrape_website w1 t1 s url n = (r1, s1)"
  shows "r1 = Inr []
         \<and> store s1 (url, n) = Some \<lparr>cached_value = [], created_at = t1\<rparr>
         \<and> pipeline_calls s1 = pipeline_calls s + 1
         \<and> (\<forall>w2 t2. t2 - t1 < ttl \<longrightarrow> cached_scrape_website w2 t2 s1 url n = (Inr [], s1))
         \<and> (\<forall>w2 t2. ttl \<le> t2 - t1 \<longrightarrow>
               pipeline_calls (snd (cached_scrape_website w2 t2 s1 url n)) = pipeline_calls s1 + 1)"
proof -
  have empty: "frame (scrape_website w1 url n) = []"
  proof (cases "fetch_soup w1 url")
    case (Inl e)
    then show ?thesis by (simp add: scrape_website_raise)
  next
    case (Inr soup)
    then have "route url = Unsupported" using assms(2) by simp
    then show ?thesis using Inr by (simp add: scrape_website_unsupported)
  qed
  let ?e = "\<lparr>cached_value = ([]::dataframe), created_at = t1\<rparr>"
  have r1: "r1 = Inr []"
    and s1: "s1 = \<lparr>store = (store s)((url, n) \<mapsto> ?e),
                   trace = trace s @ events (scrape_website w1 url n),
                   pipeline_calls = pipeline_calls s + 1\<rparr>"
    using cached_miss [OF assms(1), of w1] assms(3) empty by simp_all
  have st: "store s1 (url, n) = Some ?e" using s1 by simp
  have pc: "pipeline_calls s1 = pipeline_calls s + 1" using s1 by simp
  have hit: "cached_scrape_website w2 t2 s1 url n = (Inr [], s1)" if "t2 - t1 < ttl" for w2 t2
    using cached_hit [OF st, of t2 w2] that by simp
  have miss: "pipeline_calls (snd (cached_scrape_website w2 t2 s1 url n)) = pipeline_calls s1 + 1"
    if "ttl \<le> t2 - t1" for w2 t2
  proof -
    have "\<not> fresh (store s1) t2 (url, n)"
      using cached_expired [OF st, of t2] that by simp
    then show ?thesis by (simp add: cached_miss)
  qed
  show ?thesis using r1 st pc hit miss by (intro conjI allI impI)
qed

text \<open>The amended C3 for a request while the transport is down.\<close>

theorem error_result_is_cached_witness:
  "\<not> fresh (store empty_state) 0 (books_url, 50)
   \<and> fetch_soup offline books_url = Inl (ConnectionError ''unreachable'')
   \<and> fst (cached_scrape_website offline 0 empty_state books_url 50) = Inr []
   \<and> store (snd (cached_scrape_website offline 0 empty_state books_url 50)) (books_url, 50)
       = Some \<lparr>cached_value = [], created_at = 0\<rparr>
   \<and> pipeline_calls (snd (cached_scrape_website offline 0 empty_state books_url 50)) = 1"
proof -
  have d: "(\<exists>e. fetch_soup offline books_url = Inl e) \<or> route books_url = Unsupported"
    using fetch_soup_offline by simp
  have f: "\<not> fresh (store empty_state) 0 (books_url, 50)"
    by (rule fresh_empty_state)
  note c = error_result_is_cached [OF f d prod.collapse [symmetric]]
  show ?thesis using c f fetch_soup_offline by (simp add: empty_state_def)
qed

subsection \<open>C4: the empty result\<close>

text \<open>
  C4, as stated, fails: a supported URL whose only block is malformed and an
  unsupported URL give the same returned value, the empty frame.
\<close>

theorem empty_result_same_as_unsupported:
  "fetch_soup (serving [book_na]) books_url = Inr (Tag ''[document]'' None [] [book_na])
   \<and> route books_url = Books
   \<and> blocks_of Books (Tag ''[document]'' None [] [book_na]) = [book_na]
   \<and> route other_url = Unsupported
   \<and> frame (scrape_website (serving [book_na]) books_url 50)
       = frame (scrape_website (serving [book_na]) other_url 50)"
proof -
  have a: "frame (scrape_website (serving [book_na]) books_url 50) = []"
    using blocks_doc_na
    by (simp add: scrape_website_supported [OF fetch_soup_serving] route_books_url
        py_slice_to_def book_na_raises)
  have b: "frame (scrape_website (serving [book_na]) other_url 50) = []"
    by (simp add: scrape_website_unsupported [OF fetch_soup_serving route_other_url])
  show ?thesis
    using a b blocks_doc_na by (simp add: fetch_soup_serving route_books_url route_other_url)
qed

text \<open>
  C4, amended: a supported URL whose document is fetched and parsed but yields no row
  returns the empty frame, the same value that an unsupported URL returns; the two
  outcomes differ only in the warning that the unsupported branch emits.
\<close>

theorem empty_result_differs_only_by_warning:
  assumes "fetch_soup w url = Inr soup"
    and "route url \<noteq> Unsupported"
    and "frame (scrape_website w url n) = []"
    and "fetch_soup w' url' = Inr soup'"
    and "route url' = Unsupported"
  shows "frame (scrape_website w' url' n') = frame (scrape_website w url n)
         \<and> events (scrape_website w url n) = [HttpGet url]
         \<and> events (scrape_website w' url' n') = [HttpGet url', StWarning]"
  using assms by (simp add: scrape_website_supported scrape_website_unsupported)

text \<open>The amended C4 on the two documents of the counterexample.\<close>

theorem empty_result_differs_only_by_warning_witness:
  "fetch_soup (serving [book_na]) books_url = Inr (Tag ''[document]'' None [] [book_na])
   \<and> route books_url \<noteq> Unsupported
   \<and> frame (scrape_website (serving [book_na]) books_url 50) = []
   \<and> fetch_soup (serving []) other_url = Inr (Tag ''[document]'' None [] [])
   \<and> route other_url = Unsupported
   \<and> frame (scrape_website (serving []) other_url 10)
       = frame (scrape_website (serving [book_na]) books_url 50)
   \<and> events (scrape_website (serving [book_na]) books_url 50) = [HttpGet books_url]
   \<and> events (scrape_website (serving []) other_url 10) = [HttpGet other_url, StWarning]"
proof -
  have f: "fetch_soup (serving [book_na]) books_url = Inr (Tag ''[document]'' None [] [book_na])"
    by (rule fetch_soup_serving)
  have r: "route books_url \<noteq> Unsupported"
    by (simp add: route_books_url)
  have e: "frame (scrape_website (serving [book_na]) books_url 50) = []"
    using blocks_doc_na
    by (simp add: scrape_website_supported [OF fetch_soup_serving] route_books_url
        py_slice_to_def book_na_raises)
  have f': "fetch_soup (serving []) other_url = Inr (Tag ''[document]'' None [] [])"
    by (rule fetch_soup_serving)
  from empty_result_differs_only_by_warning [OF f r e f' route_other_url, of 10]
  show ?thesis using f r e f' route_other_url by (intro conjI) simp_all
qed

subsection \<open>C5: the correlation\<close>

text \<open>
  The correlation of price and rating is computed by the data-frame library on binary
  floating-point columns; the source only calls it and compares the absolute value of
  the result with 0.5. Nothing of that computation is part of the functions embedded
  here, so no statement about its value for a constant column is made.
\<close>

subsection \<open>C6: the bound on the number of rows\<close>

text \<open>
  C6: for \<open>max_items = N\<close> (not negative, as a bound on a length is) the returned
  frame has at most \<open>N\<close> rows; the rows are extracted from the first \<open>N\<close> blocks in
  document order, so the blocks are cut before the extraction; with \<open>N = 1\<close> and a
  valid first block the frame is exactly the row of that block.
\<close>

theorem max_items_bounds_rows:
  assumes "0 \<le> N"
  shows "length (frame (scrape_website w url N)) \<le> nat N
         \<and> (\<forall>soup. fetch_soup w url = Inr soup \<longrightarrow>
               frame (scrape_website w url N) =
                 rows_of (extractor (route url)) (take (nat N) (blocks_of (route url) soup)))
         \<and> (\<forall>soup b bs r. N = 1 \<and> fetch_soup w url = Inr soup
               \<and> blocks_of (route url) soup = b # bs \<and> extractor (route url) b = Inr r \<longrightarrow>
               frame (scrape_website w url N) = [r])"
proof (intro conjI allI impI)
  show "length (frame (scrape_website w url N)) \<le> nat N"
    by (rule frame_length_bound [OF assms])
next
  fix soup
  assume "fetch_soup w url = Inr soup"
  then show "frame (scrape_website w url N) =
      rows_of (extractor (route url)) (take (nat N) (blocks_of (route url) soup))"
    by (rule frame_rows_of_take [OF assms])
next
  fix soup b bs r
  assume h: "N = 1 \<and> fetch_soup w url = Inr soup
             \<and> blocks_of (route url) soup = b # bs \<and> extractor (route url) b = Inr r"
  then have "frame (scrape_website w url N) =
      rows_of (extractor (route url)) (take (nat N) (blocks_of (route url) soup))"
    using frame_rows_of_take [OF assms] by simp
  then show "frame (scrape_website w url N) = [r]"
    using h by simp
qed

text \<open>C6 on a document of five valid blocks with \<open>max_items = 1\<close>.\<close>

theorem max_items_bounds_rows_witness:
  "(0::int) \<le> 1
   \<and> fetch_soup (serving doc_five) books_url = Inr (Tag ''[document]'' None [] doc_five)
   \<and> blocks_of (route books_url) (Tag ''[document]'' None [] doc_five)
       = book1 # [book2, book_neg, book2, book1]
   \<and> extractor (route books_url) book1 = Inr row1
   \<and> length (frame (scrape_website (serving doc_five) books_url 1)) \<le> nat 1
   \<and> frame (scrape_website (serving doc_five) books_url 1) = [row1]"
proof -
  have b: "blocks_of (route books_url) (Tag ''[document]'' None [] doc_five)
             = book1 # [book2, book_neg, book2, book1]"
    using blocks_doc_five by (simp add: route_books_url doc_five_def)
  have e: "extractor (route books_url) book1 = Inr row1"
    by (simp add: route_books_url book1_row)
  have z: "(0::int) \<le> 1" by simp
  have f: "fetch_soup (serving doc_five) books_url = Inr (Tag ''[document]'' None [] doc_five)"
    by (rule fetch_soup_serving)
  note t = max_items_bounds_rows [OF z, of "serving doc_five" books_url]
  have l: "length (frame (scrape_website (serving doc_five) books_url 1)) \<le> nat 1"
    using t by (rule conjunct1)
  have "\<forall>soup b bs r. (1::int) = 1 \<and> fetch_soup (serving doc_five) books_url = Inr soup
               \<and> blocks_of (route books_url) soup = b # bs \<and> extractor (route books_url) b = Inr r \<longrightarrow>
               frame (scrape_website (serving doc_five) books_url 1) = [r]"
    using t by (rule conjunct2 [THEN conjunct2])
  then have r: "frame (scrape_website (serving doc_five) books_url 1) = [row1]"
    using f b e by (elim allE impE) (intro conjI refl, assumption+)
  show ?thesis using z f b e l r by (intro conjI)
qed

subsection \<open>C7: the shape of a record\<close>

text \<open>
  C7, as stated, fails: the price is whatever \<open>float\<close> parses, and its sign is
  not checked, so a block whose price text is negative gives a record with a negative
  price.
\<close>

theorem negative_price_row:
  "extract_book book_neg = Inr row_neg \<and> \<not> normalized_record row_neg"
  by (simp add: book_neg_row row_neg_def)

text \<open>
  C7, amended: every record of the returned frame is the complete row of a selected
  block whose extraction succeeded, with the five fields in order, a string title, a
  float price, a boolean availability and a string category; a book has an integer
  rating between 0 and 5, a quote the float price 0.0 and the float rating 5.0. A block
  whose extraction raises contributes no record.
\<close>

theorem rows_are_complete:
  assumes "r \<in> set (frame (scrape_website w url n))"
  shows "complete_row r
         \<and> (\<exists>soup b. fetch_soup w url = Inr soup
               \<and> b \<in> set (py_slice_to (blocks_of (route url) soup) n)
               \<and> extractor (route url) b = Inr r)"
proof -
  obtain soup where s: "fetch_soup w url = Inr soup"
    and m: "r \<in> set (rows_of (extractor (route url)) (py_slice_to (blocks_of (route url) soup) n))"
    using frame_rows_complete [OF assms] by auto
  obtain b where b: "b \<in> set (py_slice_to (blocks_of (route url) soup) n)"
    and e: "extractor (route url) b = Inr r"
    using rows_of_mem [OF m] by auto
  have "complete_row r" by (rule extractor_complete [OF e])
  then show ?thesis using s b e by auto
qed

text \<open>The amended C7 for the record with the negative price.\<close>

theorem rows_are_complete_witness:
  "row_neg \<in> set (frame (scrape_website (serving doc_five) books_url 50))
   \<and> complete_row row_neg"
proof -
  have "frame (scrape_website (serving doc_five) books_url 50) = [row1, row2, row_neg, row2, row1]"
    using blocks_doc_five
    by (simp add: scrape_website_supported [OF fetch_soup_serving] route_books_url
        py_slice_to_def doc_five_def example_rows)
  then have m: "row_neg \<in> set (frame (scrape_website (serving doc_five) books_url 50))"
    by simp
  from rows_are_complete [OF m] have "complete_row row_neg" by (rule conjunct1)
  then show ?thesis using m by simp
qed

subsection \<open>C8: the rating label\<close>

text \<open>
  C8 says that an absent rating label gives the rating 0 and never fails the record.
  The source does not keep this for a block that has no rating element: the search
  for the element returns \<open>None\<close>, the call of \<open>get\<close> on it raises, the inner
  \<open>except\<close> swallows the exception, and the record is dropped although the title and
  the price of the block are present and well formed.
\<close>

theorem missing_rating_element_drops_record:
  "title_anchor book_norating
     = Some (Tag ''a'' None [(''href'', ''x.html''), (''title'', ''Bare'')] [])
   \<and> price_value book_norating = Some (Finite (3 / 2))
   \<and> find book_norating ''p'' (Some ''star-rating'') = None
   \<and> extract_book book_norating = Inl AttributeError
   \<and> scrape_website (serving [book_norating]) books_url 50
       = \<lparr>events = [HttpGet books_url], frame = []\<rparr>"
proof -
  have t: "title_anchor book_norating
             = Some (Tag ''a'' None [(''href'', ''x.html''), (''title'', ''Bare'')] [])"
    by (simp add: title_anchor_def book_norating_def tree_defs)
  have p: "price_value book_norating = Some (Finite (3 / 2))"
    by (simp add: price_value_def book_norating_def tree_defs float_defs pound_def dollar_def)
  have r: "find book_norating ''p'' (Some ''star-rating'') = None"
    by (simp add: book_norating_def tree_defs)
  have e: "extract_book book_norating = Inl AttributeError"
    by (simp add: extract_book_def book_norating_def tree_defs float_defs pound_def dollar_def)
  have s: "scrape_website (serving [book_norating]) books_url 50
             = \<lparr>events = [HttpGet books_url], frame = []\<rparr>"
    using book_norating_is_block
    by (simp add: scrape_website_supported [OF fetch_soup_serving] route_books_url
        py_slice_to_def e)
  show ?thesis using t p r e s by (intro conjI)
qed

text \<open>
  The availability, read next in the same block body, is guarded against a missing
  element: a block without it keeps its record, with \<open>In_Stock\<close> false.
\<close>

lemma missing_availability_keeps_record:
  "find book_nostock ''p'' (Some ''instock availability'') = None
   \<and> extract_book book_nostock = Inr row_nostock"
  by (simp add: extract_book_def book_nostock_def row_nostock_def tree_defs float_defs
      pound_def dollar_def rating_of_class_def rating_map_get_def rating_map_def)

text \<open>
  Where the rating element is present the source does what C8 says: the rating is the
  value of the second class token in the enumeration One, Two, Three, Four, Five, and
  0 when that token is not in the enumeration or is missing; the record is produced
  when the anchor of the heading and a numeric price are present.
\<close>

lemma rating_label_mapping:
  assumes "find book ''p'' (Some ''star-rating'') = Some rating_element"
  shows "(case (title_anchor book, price_value book) of
            (Some a, Some price) \<Rightarrow>
              extract_book book =
                Inr [(''Title'', PyStr (get_attr a ''title'' ''N/A'')),
                     (''Price'', PyFloat price),
                     (''Rating'', PyInt (rating_of_class (get_class rating_element []))),
                     (''In_Stock'', PyBool (in_stock_of book)),
                     (''Category'', PyStr ''Books'')]
          | _ \<Rightarrow> isl (extract_book book))
         \<and> rating_of_class (get_class rating_element []) =
             (case get_class rating_element [] of
                c # label # rest \<Rightarrow>
                  (if label = ''One'' then 1 else if label = ''Two'' then 2
                   else if label = ''Three'' then 3 else if label = ''Four'' then 4
                   else if label = ''Five'' then 5 else 0)
              | _ \<Rightarrow> 0)"
proof -
  have a: "(case (title_anchor book, price_value book) of
            (Some a, Some price) \<Rightarrow>
              extract_book book =
                Inr [(''Title'', PyStr (get_attr a ''title'' ''N/A'')),
                     (''Price'', PyFloat price),
                     (''Rating'', PyInt (rating_of_class (get_class rating_element []))),
                     (''In_Stock'', PyBool (in_stock_of book)),
                     (''Category'', PyStr ''Books'')]
          | _ \<Rightarrow> isl (extract_book book))"
    using assms
    by (auto simp: extract_book_cases price_value_def split: option.splits)
  have b: "rating_of_class cs =
             (case cs of
                c # label # rest \<Rightarrow>
                  (if label = ''One'' then 1 else if label = ''Two'' then 2
                   else if label = ''Three'' then 3 else if label = ''Four'' then 4
                   else if label = ''Five'' then 5 else 0)
              | _ \<Rightarrow> 0)" for cs
    by (simp add: rating_of_class_enum split: list.splits)
  show ?thesis using a b by (intro conjI)
qed

text \<open>A block whose rating element carries no label has the rating 0.\<close>

lemma rating_label_unlabelled:
  "find book_unrated ''p'' (Some ''star-rating'') = Some (Tag ''p'' (Some [''star-rating'']) [] [])
   \<and> extract_book book_unrated = Inr row_unrated
   \<and> rating_of_class (get_class (Tag ''p'' (Some [''star-rating'']) [] []) []) = 0"
proof -
  have f: "find book_unrated ''p'' (Some ''star-rating'') = Some (Tag ''p'' (Some [''star-rating'']) [] [])"
    by (simp add: book_unrated_def book_block_def tree_defs)
  have t: "title_anchor book_unrated = Some (Tag ''a'' None [(''href'', ''x.html''), (''title'', ''Plain'')] [])"
    by (simp add: title_anchor_def book_unrated_def book_block_def tree_defs)
  have p: "price_value book_unrated = Some (Finite 4)"
    by (simp add: price_value_def book_unrated_def book_block_def tree_defs float_defs
        pound_def dollar_def)
  have i: "in_stock_of book_unrated"
    by (simp add: in_stock_of_def book_unrated_def book_block_def tree_defs)
  from rating_label_mapping [OF f]
  show ?thesis using f t p i
    by (simp add: row_unrated_def get_class_def get_attr_def)
qed

subsection \<open>C9: the cache round trip\<close>

text \<open>
  C9: when the first of two requests with the same key finds no fresh entry and the
  second comes within the TTL of the first, the pipeline is run exactly once, and the
  second request returns the frame the first one cached.
\<close>

theorem cache_computes_once:
  assumes "\<not> fresh (store s) t1 (url, n)"
    and "t2 - t1 < ttl"
    and "cached_scrape_website w1 t1 s url n = (r1, s1)"
    and "cached_scrape_website w2 t2 s1 url n = (r2, s2)"
  shows "pipeline_calls s2 = pipeline_calls s + 1
         \<and> r2 = r1
         \<and> r1 = Inr (frame (scrape_website w1 url n))
         \<and> trace s2 = trace s @ events (scrape_website w1 url n)"
proof -
  let ?e = "\<lparr>cached_value = frame (scrape_website w1 url n), created_at = t1\<rparr>"
  have first: "r1 = Inr (frame (scrape_website w1 url n))"
    and s1: "s1 = \<lparr>store = (store s)((url, n) \<mapsto> ?e),
                   trace = trace s @ events (scrape_website w1 url n),
                   pipeline_calls = pipeline_calls s + 1\<rparr>"
    using cached_miss [OF assms(1), of w1] assms(3) by simp_all
  have "store s1 (url, n) = Some ?e" using s1 by simp
  moreover have "t2 - created_at ?e < ttl" using assms(2) by simp
  ultimately have "cached_scrape_website w2 t2 s1 url n = (Inr (cached_value ?e), s1)"
    by (rule cached_hit)
  then have "r2 = Inr (frame (scrape_website w1 url n))" and "s2 = s1"
    using assms(4) by simp_all
  then show ?thesis using first s1 by simp
qed

text \<open>C9 for two requests 3599 seconds apart, the transport being down at the second.\<close>

theorem cache_computes_once_witness:
  "\<not> fresh (store empty_state) 0 (books_url, 50)
   \<and> (3599::int) - 0 < ttl
   \<and> pipeline_calls (snd (cached_scrape_website offline 3599
        (snd (cached_scrape_website (serving [book1]) 0 empty_state books_url 50))
        books_url 50)) = 1
   \<and> fst (cached_scrape_website offline 3599
        (snd (cached_scrape_website (serving [book1]) 0 empty_state books_url 50))
        books_url 50) = Inr [row1]"
proof -
  have fr: "frame (scrape_website (serving [book1]) books_url 50) = [row1]"
    using blocks_doc_book1
    by (simp add: scrape_website_supported [OF fetch_soup_serving] route_books_url
        py_slice_to_def book1_row)
  have t: "(3599::int) - 0 < ttl" by (simp add: ttl_def)
  have f: "\<not> fresh (store empty_state) 0 (books_url, 50)"
    by (rule fresh_empty_state)
  note c = cache_computes_once [where s = empty_state and ?t1.0 = 0 and ?t2.0 = 3599
      and url = books_url and n = 50 and ?w1.0 = "serving [book1]" and ?w2.0 = offline,
      OF f t prod.collapse [symmetric] prod.collapse [symmetric]]
  show ?thesis using c fr t f by (simp add: empty_state_def)
qed

subsection \<open>C10: no exception reaches the caller\<close>

text \<open>
  C10: \<open>scrape_website\<close> returns a frame for every URL and every \<open>max_items\<close>.
  When the request, the status check or the parse raises, the exception is caught by
  one of the two \<open>except\<close> clauses and the empty frame is returned after one error
  message; otherwise the body of the \<open>try\<close> returns a frame itself, since no
  exception of a block extraction leaves the loop.
\<close>

theorem scrape_website_never_raises:
  "(case fetch_soup w url of
      Inl e \<Rightarrow> snd (scrape_try w url n) = Inl e
               \<and> scrape_website w url n = \<lparr>events = [HttpGet url, error_event e], frame = []\<rparr>
    | Inr soup \<Rightarrow> (\<exists>df. snd (scrape_try w url n) = Inr df
                         \<and> frame (scrape_website w url n) = df))"
  by (simp add: scrape_website_def scrape_try_route error_event_def split: sum.splits)

text \<open>C10 at a transport failure.\<close>

theorem scrape_website_never_raises_witness:
  "snd (scrape_try offline books_url 50) = Inl (ConnectionError ''unreachable'')
   \<and> scrape_website offline books_url 50 =
       \<lparr>events = [HttpGet books_url, StErrorFetching (ConnectionError ''unreachable'')], frame = []\<rparr>"
  using scrape_website_never_raises [of offline books_url 50]
  by (simp add: fetch_soup_offline error_event_def)

end
